theory Spec2Isabelle
  imports Main "HOL-Library.AList"
begin

section \<open>The configuration registry of \<open>pyphi/conf.py\<close>\<close>

text \<open>
  The module declares configuration options as descriptors (\<open>class Option\<close>), keeps the
  current values in the instance dictionary of a \<open>Config\<close> object, and offers an
  override guard (\<open>class _override\<close>, a \<open>contextlib.ContextDecorator\<close>) that replaces
  some values for the time of a block or of a call. This theory embeds these classes as
  functions on an explicit program state and settles what the specification says of them.
\<close>

subsection \<open>Python values\<close>

text \<open>
  The values the module stores are scalars (\<open>None\<close>, booleans, integers, strings) and
  dictionaries of scalars (the defaults of \<open>MONGODB_CONFIG\<close> and \<open>REDIS_CONFIG\<close>).
  A dictionary is a mutable object: a value of that kind is a reference into a store of
  objects, so that two references to one object see each other's modifications.
\<close>

type_synonym name = string
type_synonym addr = nat

datatype atom = ANone | ABool bool | AInt int | AStr string

datatype pyval = Atom atom | Ref addr

type_synonym obj = "(atom \<times> atom) list"

text \<open>
  A key of an instance dictionary is a string. The one other key the code can write is
  \<open>None\<close>, the \<open>name\<close> of a descriptor that no \<open>Config.__init__\<close> has bound yet.
\<close>

type_synonym key = "name option"

text \<open>
  Python's \<open>==\<close> on scalars: \<open>bool\<close> is a subclass of \<open>int\<close>, so \<open>True == 1\<close> and
  \<open>False == 0\<close>. \<open>x in xs\<close> on a list is \<open>any(x is e or x == e for e in xs)\<close>.
  The \<open>values=\<close> lists of this module hold integers or strings; a list of allowed
  values is modelled as a list of scalars, which a dictionary object never equals.
\<close>

fun atom_int :: "atom \<Rightarrow> int option" where
  "atom_int (ABool b) = Some (if b then 1 else 0)"
| "atom_int (AInt i) = Some i"
| "atom_int ANone = None"
| "atom_int (AStr s) = None"

definition py_eq :: "atom \<Rightarrow> atom \<Rightarrow> bool" where
  "py_eq a b =
     (a = b \<or> (case (atom_int a, atom_int b) of (Some i, Some j) \<Rightarrow> i = j | _ \<Rightarrow> False))"

definition py_in :: "pyval \<Rightarrow> atom list \<Rightarrow> bool" where
  "py_in v xs = (case v of Atom a \<Rightarrow> list_ex (py_eq a) xs | Ref r \<Rightarrow> False)"

subsection \<open>Exceptions\<close>

text \<open>
  Both rejections of the write path raise \<open>ValueError\<close>; they differ in the message,
  kept here as the reason. \<open>TypeError\<close> is what the builtin \<open>setattr\<close> raises for an
  attribute name that is not a string, \<open>AttributeError\<close> what attribute lookup raises,
  \<open>KeyError\<close> what a dictionary read raises. \<open>Raised\<close> stands for any exception of the
  code around the registry (a guarded body, a hook).
\<close>

datatype reason =
    NotAnOption name       \<comment> \<open>\<open>'{} is not a valid config option'\<close>\<close>
  | NotAllowed pyval key   \<comment> \<open>\<open>'{} is not a valid value for {}'\<close>\<close>

datatype exn =
    ValueError reason
  | TypeError
  | AttributeError name
  | KeyError key
  | Raised string

subsection \<open>Program state\<close>

text \<open>
  The argument of one call of \<open>logging.config.dictConfig\<close>, as far as
  \<open>configure_logging\<close> makes it depend on the configuration.
\<close>

record logcfg =
  file_level :: pyval
  file_filename :: pyval
  stdout_level :: pyval
  root_handlers :: "string list"

text \<open>
  The state the module works on: the instance dictionary of the registry object
  (\<open>config.__dict__\<close>, in insertion order), the store of dictionary objects, the logging
  subsystem (the configurations applied to it so far), and a history variable \<open>fired\<close>
  that records, in order, the \<open>name\<close> of each descriptor whose \<open>on_change\<close> was called.
\<close>

record state =
  dict :: "(key \<times> pyval) list"
  store :: "(addr \<times> obj) list"
  logging :: "logcfg list"
  fired :: "key list"

subsection \<open>\<open>class Option\<close>\<close>

text \<open>
  A change hook is called with the registry object; its result is discarded and its
  exception propagates. The hook of this module, \<open>configure_logging\<close>, reads settings
  and reconfigures logging: a hook is a function that reads the state and yields the new
  state of the logging subsystem, or raises. A hook that would itself assign to the
  registry or modify a stored object is outside this model.
\<close>

type_synonym hook = "state \<Rightarrow> exn option \<times> logcfg list"

text \<open>
  The attributes of a descriptor, without \<open>description\<close> (documentation only).
  \<open>opt_name\<close> is \<open>None\<close> after \<open>Option.__init__\<close> and is assigned by \<open>Config.__init__\<close>.
\<close>

record Option_desc =
  opt_default :: pyval
  opt_values :: "atom list option"
  opt_on_change :: "hook option"
  opt_name :: key

definition Option_init :: "pyval \<Rightarrow> atom list option \<Rightarrow> hook option \<Rightarrow> Option_desc" where
  "Option_init d vs h =
     \<lparr>opt_default = d, opt_values = vs, opt_on_change = h, opt_name = None\<rparr>"

text \<open>\<open>Option.__get__\<close> on an instance: \<open>obj.__dict__[self.name]\<close>.\<close>

definition Option_get :: "Option_desc \<Rightarrow> state \<Rightarrow> exn + pyval" where
  "Option_get opt s =
     (case map_of (dict s) (opt_name opt) of
        None \<Rightarrow> Inl (KeyError (opt_name opt))
      | Some v \<Rightarrow> Inr v)"

text \<open>
  The test \<open>self.values and value not in self.values\<close>: \<open>None\<close> and the empty list are
  both false in Python, so only a non-empty list constrains the value.
\<close>

definition rejects :: "Option_desc \<Rightarrow> pyval \<Rightarrow> bool" where
  "rejects opt v =
     (case opt_values opt of
        None \<Rightarrow> False
      | Some xs \<Rightarrow> xs \<noteq> [] \<and> \<not> py_in v xs)"

text \<open>The assignment \<open>obj.__dict__[self.name] = value\<close>.\<close>

definition commit :: "Option_desc \<Rightarrow> pyval \<Rightarrow> state \<Rightarrow> state" where
  "commit opt v s = s\<lparr>dict := AList.update (opt_name opt) v (dict s)\<rparr>"

text \<open>The call \<open>self.on_change(obj)\<close>.\<close>

definition call_hook :: "Option_desc \<Rightarrow> hook \<Rightarrow> state \<Rightarrow> exn option \<times> state" where
  "call_hook opt h s =
     (let s1 = s\<lparr>fired := fired s @ [opt_name opt]\<rparr>;
          (r, l) = h s1
      in (r, s1\<lparr>logging := l\<rparr>))"

text \<open>\<open>Option.__set__\<close>: validate, store, then trigger the callback.\<close>

definition Option_set :: "Option_desc \<Rightarrow> pyval \<Rightarrow> state \<Rightarrow> exn option \<times> state" where
  "Option_set opt v s =
     (if rejects opt v then (Some (ValueError (NotAllowed v (opt_name opt))), s)
      else
        (case opt_on_change opt of
           None \<Rightarrow> (None, commit opt v s)
         | Some h \<Rightarrow> call_hook opt h (commit opt v s)))"

subsection \<open>\<open>class Config\<close>\<close>

text \<open>
  A registry class: its own namespace (\<open>cls.__dict__\<close>) and what it inherits. An entry
  is an \<open>Option\<close> or something else (a method, a docstring).
\<close>

datatype member = MOption Option_desc | MOther

record pyclass =
  own :: "(name \<times> member) list"
  inherited :: "(name \<times> member) list"

text \<open>\<open>Config.options\<close>: the entries of \<open>cls.__dict__\<close> that are \<open>Option\<close> instances.\<close>

fun options_of :: "(name \<times> member) list \<Rightarrow> (name \<times> Option_desc) list" where
  "options_of [] = []"
| "options_of ((k, MOption opt) # ms) = (k, opt) # options_of ms"
| "options_of ((k, MOther) # ms) = options_of ms"

definition options :: "pyclass \<Rightarrow> (name \<times> Option_desc) list" where
  "options cls = options_of (own cls)"

text \<open>\<open>Config.defaults\<close>.\<close>

definition defaults :: "pyclass \<Rightarrow> (name \<times> pyval) list" where
  "defaults cls = map (\<lambda>(k, opt). (k, opt_default opt)) (options cls)"

text \<open>Looking a name up on the type: the class's own namespace first, then its bases.\<close>

definition type_lookup :: "pyclass \<Rightarrow> name \<Rightarrow> member option" where
  "type_lookup cls n = map_of (own cls @ inherited cls) n"

text \<open>
  \<open>Config.__init__\<close>: for each option in turn, \<open>v.name = k\<close> and
  \<open>self.__dict__[k] = v.default\<close>. The descriptors belong to the class, so the
  constructor returns the class with the names assigned, next to the new instance.
  No statement of it raises.
\<close>

fun bind_names :: "(name \<times> member) list \<Rightarrow> (name \<times> member) list" where
  "bind_names [] = []"
| "bind_names ((k, MOption opt) # ms) = (k, MOption (opt\<lparr>opt_name := Some k\<rparr>)) # bind_names ms"
| "bind_names ((k, MOther) # ms) = (k, MOther) # bind_names ms"

definition Config_init :: "pyclass \<Rightarrow> state \<Rightarrow> exn option \<times> pyclass \<times> state" where
  "Config_init cls s =
     (None,
      cls\<lparr>own := bind_names (own cls)\<rparr>,
      s\<lparr>dict := fold (\<lambda>(k, opt) d. AList.update (Some k) (opt_default opt) d) (options cls) []\<rparr>)"

text \<open>
  \<open>Config.__setattr__\<close>: a name that is not an option is refused; otherwise
  \<open>super().__setattr__(name, value)\<close>, which is \<open>object.__setattr__\<close>: a data descriptor
  found on the type takes the write, anything else goes to the instance dictionary.
\<close>

definition Config_setattr :: "pyclass \<Rightarrow> name \<Rightarrow> pyval \<Rightarrow> state \<Rightarrow> exn option \<times> state" where
  "Config_setattr cls n v s =
     (if n \<notin> set (map fst (options cls)) then (Some (ValueError (NotAnOption n)), s)
      else
        (case type_lookup cls n of
           Some (MOption opt) \<Rightarrow> Option_set opt v s
         | _ \<Rightarrow> (None, s\<lparr>dict := AList.update (Some n) v (dict s)\<rparr>)))"

text \<open>The builtin \<open>setattr(self, k, v)\<close>: the attribute name must be a string.\<close>

definition py_setattr :: "pyclass \<Rightarrow> key \<Rightarrow> pyval \<Rightarrow> state \<Rightarrow> exn option \<times> state" where
  "py_setattr cls k v s =
     (case k of None \<Rightarrow> (Some TypeError, s) | Some n \<Rightarrow> Config_setattr cls n v s)"

text \<open>
  Reading \<open>config.n\<close>. The class does not define \<open>__getattr__\<close>, so this is
  \<open>object.__getattribute__\<close>: a data descriptor on the type (an \<open>Option\<close>) answers
  first, then the instance dictionary, then any other attribute of the type.
\<close>

datatype attr = Value pyval | ClassAttr name

definition Config_getattr :: "pyclass \<Rightarrow> name \<Rightarrow> state \<Rightarrow> exn + attr" where
  "Config_getattr cls n s =
     (case type_lookup cls n of
        Some (MOption opt) \<Rightarrow>
          (case Option_get opt s of Inl e \<Rightarrow> Inl e | Inr v \<Rightarrow> Inr (Value v))
      | other \<Rightarrow>
          (case map_of (dict s) (Some n) of
             Some v \<Rightarrow> Inr (Value v)
           | None \<Rightarrow>
               (case other of
                  None \<Rightarrow> Inl (AttributeError n)
                | Some m \<Rightarrow> Inr (ClassAttr n))))"

text \<open>\<open>Config.load_config_dict\<close>: \<open>for k, v in dct.items(): setattr(self, k, v)\<close>.\<close>

fun load_config_dict :: "pyclass \<Rightarrow> (key \<times> pyval) list \<Rightarrow> state \<Rightarrow> exn option \<times> state" where
  "load_config_dict cls [] s = (None, s)"
| "load_config_dict cls ((k, v) # kvs) s =
     (case py_setattr cls k v s of
        (Some e, s1) \<Rightarrow> (Some e, s1)
      | (None, s1) \<Rightarrow> load_config_dict cls kvs s1)"

text \<open>
  \<open>Config.snapshot\<close>: \<open>copy(self.__dict__)\<close>, a new dictionary with the same keys bound
  to the same value objects (a shallow copy).
\<close>

definition snapshot :: "state \<Rightarrow> (key \<times> pyval) list" where
  "snapshot s = dict s"

subsection \<open>\<open>class _override\<close>\<close>

record override_guard =
  new_conf :: "(key \<times> pyval) list"
  initial_conf :: "(key \<times> pyval) list"

text \<open>
  \<open>_override.__init__\<close>. The keyword arguments \<open>**new_conf\<close> have string keys.
  \<open>Config.override\<close> returns \<open>_override(self, **new_config)\<close>.
\<close>

definition override_init :: "(name \<times> pyval) list \<Rightarrow> state \<Rightarrow> override_guard" where
  "override_init kw s =
     \<lparr>new_conf = map (\<lambda>(k, v). (Some k, v)) kw, initial_conf = snapshot s\<rparr>"

definition Config_override :: "(name \<times> pyval) list \<Rightarrow> state \<Rightarrow> override_guard" where
  "Config_override kw s = override_init kw s"

definition override_enter :: "pyclass \<Rightarrow> override_guard \<Rightarrow> state \<Rightarrow> exn option \<times> state" where
  "override_enter cls g s = load_config_dict cls (new_conf g) s"

text \<open>\<open>_override.__exit__\<close> reloads the initial values and returns \<open>False\<close>.\<close>

definition override_exit :: "pyclass \<Rightarrow> override_guard \<Rightarrow> state \<Rightarrow> (exn + bool) \<times> state" where
  "override_exit cls g s =
     (case load_config_dict cls (initial_conf g) s of
        (Some e, s1) \<Rightarrow> (Inl e, s1)
      | (None, s1) \<Rightarrow> (Inr False, s1))"

text \<open>
  The statement \<open>with g: body\<close> of the language. If \<open>__enter__\<close> raises, neither the
  body nor \<open>__exit__\<close> runs. Otherwise \<open>__exit__\<close> runs after the body; an exception of
  \<open>__exit__\<close> replaces the outcome of the body; an exception of the body is swallowed
  when \<open>__exit__\<close> returns a true value and propagates otherwise. The result is the
  value of the body, or \<open>None\<close> when its exception was swallowed.
\<close>

definition with_stmt ::
  "(state \<Rightarrow> exn option \<times> state) \<Rightarrow> (state \<Rightarrow> (exn + bool) \<times> state) \<Rightarrow>
   (state \<Rightarrow> (exn + 'r) \<times> state) \<Rightarrow> state \<Rightarrow> (exn + 'r option) \<times> state" where
  "with_stmt enter exit body s =
     (case enter s of
        (Some e, s1) \<Rightarrow> (Inl e, s1)
      | (None, s1) \<Rightarrow>
          (case body s1 of
             (Inl e, s2) \<Rightarrow>
               (case exit s2 of
                  (Inl e', s3) \<Rightarrow> (Inl e', s3)
                | (Inr swallow, s3) \<Rightarrow> if swallow then (Inr None, s3) else (Inl e, s3))
           | (Inr r, s2) \<Rightarrow>
               (case exit s2 of
                  (Inl e', s3) \<Rightarrow> (Inl e', s3)
                | (Inr swallow, s3) \<Rightarrow> (Inr (Some r), s3))))"

text \<open>The guard used as a context manager: \<open>with g: body\<close>.\<close>

definition override_with ::
  "pyclass \<Rightarrow> override_guard \<Rightarrow> (state \<Rightarrow> (exn + 'r) \<times> state) \<Rightarrow> state \<Rightarrow>
   (exn + 'r option) \<times> state" where
  "override_with cls g body s = with_stmt (override_enter cls g) (override_exit cls g) body s"

text \<open>
  The guard used as a decorator. \<open>contextlib.ContextDecorator.__call__(self, func)\<close>
  returns \<open>inner\<close> with \<open>inner(*args): with self._recreate_cm(): return func(*args)\<close>,
  and \<open>_recreate_cm\<close> returns \<open>self\<close>: every call of the wrapped function runs under
  the one guard object that decorated it.
\<close>

definition ContextDecorator_call ::
  "pyclass \<Rightarrow> override_guard \<Rightarrow> ('a \<Rightarrow> state \<Rightarrow> (exn + 'r) \<times> state) \<Rightarrow>
   'a \<Rightarrow> state \<Rightarrow> (exn + 'r option) \<times> state" where
  "ContextDecorator_call cls g func args s = override_with cls g (func args) s"

subsection \<open>\<open>configure_logging\<close> and \<open>class PyphiConfig\<close>\<close>

text \<open>
  Python's truth value of a stored value: \<open>None\<close>, \<open>False\<close>, \<open>0\<close>, the empty string and
  an empty dictionary are false.
\<close>

definition truthy :: "state \<Rightarrow> pyval \<Rightarrow> bool" where
  "truthy s v =
     (case v of
        Atom ANone \<Rightarrow> False
      | Atom (ABool b) \<Rightarrow> b
      | Atom (AInt i) \<Rightarrow> i \<noteq> 0
      | Atom (AStr x) \<Rightarrow> x \<noteq> []
      | Ref r \<Rightarrow> (case map_of (store s) r of None \<Rightarrow> True | Some kvs \<Rightarrow> kvs \<noteq> []))"

text \<open>
  \<open>configure_logging(config)\<close> reads \<open>LOG_FILE_LEVEL\<close>, \<open>LOG_FILE\<close> and
  \<open>LOG_STDOUT_LEVEL\<close> (in this order, each through its descriptor, that is from the
  instance dictionary) and hands the resulting dictionary to
  \<open>logging.config.dictConfig\<close>. That function belongs to the standard library; it is the
  parameter \<open>dictConfig\<close>, a function on the logging subsystem that may raise.
\<close>

definition configure_logging ::
  "(logcfg \<Rightarrow> logcfg list \<Rightarrow> exn option \<times> logcfg list) \<Rightarrow> hook" where
  "configure_logging dictConfig s =
     (case map_of (dict s) (Some ''LOG_FILE_LEVEL'') of
        None \<Rightarrow> (Some (KeyError (Some ''LOG_FILE_LEVEL'')), logging s)
      | Some fl \<Rightarrow>
     (case map_of (dict s) (Some ''LOG_FILE'') of
        None \<Rightarrow> (Some (KeyError (Some ''LOG_FILE'')), logging s)
      | Some f \<Rightarrow>
     (case map_of (dict s) (Some ''LOG_STDOUT_LEVEL'') of
        None \<Rightarrow> (Some (KeyError (Some ''LOG_STDOUT_LEVEL'')), logging s)
      | Some sl \<Rightarrow>
          dictConfig
            \<lparr>file_level = fl, file_filename = f, stdout_level = sl,
             root_handlers = (if truthy s fl then [''file''] else []) @
                             (if truthy s sl then [''stdout''] else [])\<rparr>
            (logging s))))"

text \<open>A \<open>dictConfig\<close> that accepts every configuration and applies it.\<close>

definition dictConfig_applies :: "logcfg \<Rightarrow> logcfg list \<Rightarrow> exn option \<times> logcfg list" where
  "dictConfig_applies c l = (None, l @ [c])"

text \<open>
  The dictionary literals that are the defaults of \<open>MONGODB_CONFIG\<close> and \<open>REDIS_CONFIG\<close>
  are created once, when the class body runs: objects 0 and 1 of the store.
\<close>

definition module_store :: "(addr \<times> obj) list" where
  "module_store =
     [(0, [(AStr ''host'', AStr ''localhost''), (AStr ''port'', AInt 27017),
           (AStr ''database_name'', AStr ''pyphi''), (AStr ''collection_name'', AStr ''cache'')]),
      (1, [(AStr ''host'', AStr ''localhost''), (AStr ''port'', AInt 6379)])]"

definition module_state :: state where
  "module_state = \<lparr>dict = [], store = module_store, logging = [], fired = []\<rparr>"

text \<open>The methods that \<open>class Config\<close> defines, which every registry class inherits.\<close>

definition Config_namespace :: "(name \<times> member) list" where
  "Config_namespace =
     [(''__init__'', MOther), (''__str__'', MOther), (''__setattr__'', MOther),
      (''options'', MOther), (''defaults'', MOther), (''load_config_dict'', MOther),
      (''load_config_file'', MOther), (''snapshot'', MOther), (''override'', MOther)]"

text \<open>The option table of \<open>class PyphiConfig(Config)\<close>, in the order of the class body.\<close>

definition PyphiConfig_options ::
  "(logcfg \<Rightarrow> logcfg list \<Rightarrow> exn option \<times> logcfg list) \<Rightarrow> (name \<times> member) list" where
  "PyphiConfig_options dictConfig =
     [(''ASSUME_CUTS_CANNOT_CREATE_NEW_CONCEPTS'',
         MOption (Option_init (Atom (ABool False)) None None)),
      (''CUT_ONE_APPROXIMATION'', MOption (Option_init (Atom (ABool False)) None None)),
      (''MEASURE'', MOption (Option_init (Atom (AStr ''EMD'')) None None)),
      (''PARALLEL_CONCEPT_EVALUATION'', MOption (Option_init (Atom (ABool False)) None None)),
      (''PARALLEL_CUT_EVALUATION'', MOption (Option_init (Atom (ABool True)) None None)),
      (''PARALLEL_COMPLEX_EVALUATION'', MOption (Option_init (Atom (ABool False)) None None)),
      (''NUMBER_OF_CORES'', MOption (Option_init (Atom (AInt (- 1))) None None)),
      (''MAXIMUM_CACHE_MEMORY_PERCENTAGE'', MOption (Option_init (Atom (AInt 50)) None None)),
      (''CACHE_BIGMIPS'', MOption (Option_init (Atom (ABool False)) None None)),
      (''CACHE_POTENTIAL_PURVIEWS'', MOption (Option_init (Atom (ABool True)) None None)),
      (''CACHING_BACKEND'', MOption (Option_init (Atom (AStr ''fs'')) None None)),
      (''FS_CACHE_VERBOSITY'', MOption (Option_init (Atom (AInt 0)) None None)),
      (''FS_CACHE_DIRECTORY'', MOption (Option_init (Atom (AStr ''__pyphi_cache__'')) None None)),
      (''MONGODB_CONFIG'', MOption (Option_init (Ref 0) None None)),
      (''REDIS_CACHE'', MOption (Option_init (Atom (ABool False)) None None)),
      (''REDIS_CONFIG'', MOption (Option_init (Ref 1) None None)),
      (''LOG_FILE'',
         MOption (Option_init (Atom (AStr ''pyphi.log'')) None
                    (Some (configure_logging dictConfig)))),
      (''LOG_FILE_LEVEL'',
         MOption (Option_init (Atom (AStr ''INFO'')) None
                    (Some (configure_logging dictConfig)))),
      (''LOG_STDOUT_LEVEL'',
         MOption (Option_init (Atom (AStr ''WARNING'')) None
                    (Some (configure_logging dictConfig)))),
      (''LOG_CONFIG_ON_IMPORT'', MOption (Option_init (Atom (ABool True)) None None)),
      (''PROGRESS_BARS'', MOption (Option_init (Atom (ABool True)) None None)),
      (''PRECISION'', MOption (Option_init (Atom (AInt 6)) None None)),
      (''VALIDATE_SUBSYSTEM_STATES'', MOption (Option_init (Atom (ABool True)) None None)),
      (''VALIDATE_CONDITIONAL_INDEPENDENCE'',
         MOption (Option_init (Atom (ABool True)) None None)),
      (''SINGLE_MICRO_NODES_WITH_SELFLOOPS_HAVE_PHI'',
         MOption (Option_init (Atom (ABool False)) None None)),
      (''REPR_VERBOSITY'',
         MOption (Option_init (Atom (AInt 2)) (Some [AInt 0, AInt 1, AInt 2]) None)),
      (''PRINT_FRACTIONS'', MOption (Option_init (Atom (ABool True)) None None)),
      (''PARTITION_TYPE'',
         MOption (Option_init (Atom (AStr ''BI''))
                    (Some [AStr ''BI'', AStr ''TRI'', AStr ''ALL'']) None)),
      (''PICK_SMALLEST_PURVIEW'', MOption (Option_init (Atom (ABool False)) None None)),
      (''USE_SMALL_PHI_DIFFERENCE_FOR_CONSTELLATION_DISTANCE'',
         MOption (Option_init (Atom (ABool False)) None None)),
      (''SYSTEM_CUTS'',
         MOption (Option_init (Atom (AStr ''3.0_STYLE''))
                    (Some [AStr ''3.0_STYLE'', AStr ''CONCEPT_STYLE'']) None))]"

text \<open>
  The namespace of the class also holds \<open>__module__\<close> and \<open>__doc__\<close>, which are not
  options.
\<close>

definition PyphiConfig ::
  "(logcfg \<Rightarrow> logcfg list \<Rightarrow> exn option \<times> logcfg list) \<Rightarrow> pyclass" where
  "PyphiConfig dictConfig =
     \<lparr>own = (''__module__'', MOther) # PyphiConfig_options dictConfig @ [(''__doc__'', MOther)],
      inherited = Config_namespace\<rparr>"

subsection \<open>Code around the registry\<close>




subsection \<open>Well-formed classes and instances\<close>

text \<open>
  A class namespace is a dictionary, so its keys are distinct. After \<open>Config.__init__\<close>
  every descriptor carries the name of its field, and the keys of the instance dictionary
  are the names of the options, in their order.
\<close>

definition bound :: "pyclass \<Rightarrow> bool" where
  "bound cls \<longleftrightarrow>
     distinct (map fst (own cls)) \<and>
     list_all (\<lambda>(k, opt). opt_name opt = Some k) (options cls)"

definition populated :: "pyclass \<Rightarrow> state \<Rightarrow> bool" where
  "populated cls s \<longleftrightarrow> map fst (dict s) = map (\<lambda>(k, opt). Some k) (options cls)"

text \<open>
  The module creates its registry when it is imported: \<open>config = PyphiConfig()\<close>.
\<close>

definition config_class ::
  "(logcfg \<Rightarrow> logcfg list \<Rightarrow> exn option \<times> logcfg list) \<Rightarrow> pyclass" where
  "config_class dictConfig = fst (snd (Config_init (PyphiConfig dictConfig) module_state))"

definition config :: "(logcfg \<Rightarrow> logcfg list \<Rightarrow> exn option \<times> logcfg list) \<Rightarrow> state" where
  "config dictConfig = snd (snd (Config_init (PyphiConfig dictConfig) module_state))"

text \<open>
  A write that the registry refuses before it stores anything: the key is not a string,
  or not the name of an option, or the value fails the option's check.
\<close>

definition refused :: "pyclass \<Rightarrow> key \<Rightarrow> pyval \<Rightarrow> bool" where
  "refused cls k v =
     (case k of
        None \<Rightarrow> True
      | Some n \<Rightarrow>
          (case map_of (options cls) n of
             None \<Rightarrow> True
           | Some opt \<Rightarrow> rejects opt v))"

text \<open>The options of a class that carry a change hook.\<close>

definition has_hook :: "pyclass \<Rightarrow> key \<Rightarrow> bool" where
  "has_hook cls k =
     (case k of
        None \<Rightarrow> False
      | Some n \<Rightarrow>
          (case map_of (options cls) n of
             None \<Rightarrow> False
           | Some opt \<Rightarrow> opt_on_change opt \<noteq> None))"

subsection \<open>Registries and bodies used as examples\<close>

text \<open>
  A registry class in the style of \<open>PyphiConfig\<close> whose first option has a default
  outside its own list of allowed values, and whose last option has a change hook that
  leaves the logging subsystem as it is.
\<close>

definition quiet_hook :: hook where
  "quiet_hook s = (None, logging s)"

definition example_namespace :: "(name \<times> member) list" where
  "example_namespace =
     [(''LEVEL'',
         MOption (Option_init (Atom (AStr ''TRACE''))
                    (Some [AStr ''DEBUG'', AStr ''WARN'', AStr ''ERROR'']) None)),
      (''RETRIES'', MOption (Option_init (Atom (AInt 3)) None None)),
      (''SINK'', MOption (Option_init (Atom (AStr ''stderr'')) None (Some quiet_hook)))]"

definition example_declaration :: pyclass where
  "example_declaration = \<lparr>own = example_namespace, inherited = Config_namespace\<rparr>"

definition example_class :: pyclass where
  "example_class = fst (snd (Config_init example_declaration module_state))"

definition example_config :: state where
  "example_config = snd (snd (Config_init example_declaration module_state))"

text \<open>A registry class with one option declared with \<open>values=[]\<close>.\<close>

definition open_declaration :: pyclass where
  "open_declaration =
     \<lparr>own = [(''MODE'', MOption (Option_init (Atom (AStr ''fast'')) (Some []) None))],
      inherited = Config_namespace\<rparr>"

definition open_class :: pyclass where
  "open_class = fst (snd (Config_init open_declaration module_state))"

definition open_config :: state where
  "open_config = snd (snd (Config_init open_declaration module_state))"




definition returning_function :: "unit \<Rightarrow> state \<Rightarrow> (exn + unit) \<times> state" where
  "returning_function args s = (Inr (), s)"

section \<open>Basic facts\<close>

subsection \<open>Options of a class\<close>

lemma options_of_set: "(k, opt) \<in> set (options_of ms) \<longleftrightarrow> (k, MOption opt) \<in> set ms"
  by (induction ms rule: options_of.induct) auto

lemma map_of_options_of:
  "distinct (map fst ms) \<Longrightarrow> map_of (options_of ms) n = Some opt \<longleftrightarrow> map_of ms n = Some (MOption opt)"
  by (induction ms rule: options_of.induct) (auto simp: options_of_set dest: map_of_SomeD  intro: rev_image_eqI)

lemma options_of_keys_subset: "fst ` set (options_of ms) \<subseteq> fst ` set ms"
  by (induction ms rule: options_of.induct) auto

lemma distinct_options_of: "distinct (map fst ms) \<Longrightarrow> distinct (map fst (options_of ms))"
  using options_of_keys_subset by (induction ms rule: options_of.induct) auto

lemma bound_lookup:
  assumes "bound cls" "map_of (options cls) n = Some opt"
  shows "type_lookup cls n = Some (MOption opt)" "opt_name opt = Some n"
proof -
  from assms have d: "distinct (map fst (own cls))" by (simp add: bound_def)
  from assms(2) have "map_of (own cls) n = Some (MOption opt)"
    using map_of_options_of[OF d] by (simp add: options_def)
  then show "type_lookup cls n = Some (MOption opt)" by (simp add: type_lookup_def)
  from assms(2) have "(n, opt) \<in> set (options cls)" by (rule map_of_SomeD)
  with assms(1) show "opt_name opt = Some n" by (auto simp: bound_def list_all_iff)
qed

lemma setattr_declared:
  "bound cls \<Longrightarrow> map_of (options cls) n = Some opt \<Longrightarrow> Config_setattr cls n v s = Option_set opt v s"
  by (auto simp: Config_setattr_def bound_lookup dest: map_of_SomeD intro: rev_image_eqI)

lemma setattr_undeclared:
  "n \<notin> set (map fst (options cls)) \<Longrightarrow>
   Config_setattr cls n v s = (Some (ValueError (NotAnOption n)), s)"
  by (simp add: Config_setattr_def)

lemma declared_lookup:
  "n \<in> set (map fst (options cls)) \<Longrightarrow> \<exists>opt. map_of (options cls) n = Some opt"
  by (cases "map_of (options cls) n") (auto simp: map_of_eq_None_iff)

lemma getattr_declared:
  "bound cls \<Longrightarrow> map_of (options cls) n = Some opt \<Longrightarrow>
   Config_getattr cls n s =
     (case map_of (dict s) (Some n) of None \<Rightarrow> Inl (KeyError (Some n)) | Some v \<Rightarrow> Inr (Value v))"
  by (simp add: Config_getattr_def bound_lookup Option_get_def split: option.splits)

lemma call_hook_frame:
  "call_hook opt h s = (r, s') \<Longrightarrow>
   dict s' = dict s \<and> store s' = store s \<and> fired s' = fired s @ [opt_name opt]"
  by (auto simp: call_hook_def Let_def split: prod.splits)

lemma Option_set_cases:
  "Option_set opt v s = (r, s') \<Longrightarrow>
   (rejects opt v \<and> r = Some (ValueError (NotAllowed v (opt_name opt))) \<and> s' = s) \<or>
   (\<not> rejects opt v \<and> dict s' = AList.update (opt_name opt) v (dict s) \<and> store s' = store s \<and>
    fired s' = fired s @ (if opt_on_change opt = None then [] else [opt_name opt]) \<and>
    (opt_on_change opt = None \<longrightarrow> r = None))"
  by (auto simp: Option_set_def commit_def split: if_splits option.splits dest!: call_hook_frame)

lemma py_setattr_ok:
  assumes "bound cls" "py_setattr cls k v s = (None, s')"
  shows "dict s' = AList.update k v (dict s)" "store s' = store s"
    "fired s' = fired s @ (if has_hook cls k then [k] else [])"
proof -
  from assms(2) obtain n where k: "k = Some n" and c: "Config_setattr cls n v s = (None, s')"
    by (auto simp: py_setattr_def split: option.splits)
  from c have "n \<in> set (map fst (options cls))"
    by (auto simp: Config_setattr_def split: if_splits)
  then obtain opt where o: "map_of (options cls) n = Some opt"
    using declared_lookup by blast
  from c o assms(1) have os: "Option_set opt v s = (None, s')" by (simp add: setattr_declared)
  have nm: "opt_name opt = Some n" using bound_lookup(2)[OF assms(1) o] .
  from Option_set_cases[OF os] nm k o
  show "dict s' = AList.update k v (dict s)" "store s' = store s"
    "fired s' = fired s @ (if has_hook cls k then [k] else [])"
    by (auto simp: has_hook_def)
qed

lemma load_ok:
  assumes "bound cls"
  shows "load_config_dict cls kvs s = (None, s') \<Longrightarrow>
    dict s' = fold (\<lambda>(k, v). AList.update k v) kvs (dict s) \<and> store s' = store s \<and>
    fired s' = fired s @ filter (has_hook cls) (map fst kvs)"
proof (induction kvs arbitrary: s)
  case Nil
  then show ?case by simp
next
  case (Cons kv kvs)
  obtain k v where kv: "kv = (k, v)" by (cases kv)
  from Cons.prems kv obtain s1 where a: "py_setattr cls k v s = (None, s1)"
    and b: "load_config_dict cls kvs s1 = (None, s')"
    by (auto split: prod.splits option.splits)
  from py_setattr_ok[OF assms a] Cons.IH[OF b] kv show ?case by simp
qed

lemma map_of_fold_update:
  "distinct (map fst kvs) \<Longrightarrow> (k, v) \<in> set kvs \<Longrightarrow>
   map_of (fold (\<lambda>(k, v). AList.update k v) kvs d) k = Some v"
proof (induction kvs arbitrary: d)
  case Nil
  then show ?case by simp
next
  case (Cons a kvs)
  have nochange: "\<And>d. k \<notin> fst ` set kvs \<Longrightarrow> map_of (fold (\<lambda>(k, v). AList.update k v) kvs d) k = map_of d k"
  proof -
    fix d :: "('a \<times> 'b) list" show "k \<notin> fst ` set kvs \<Longrightarrow> map_of (fold (\<lambda>(k, v). AList.update k v) kvs d) k = map_of d k"
      by (induction kvs arbitrary: d) (auto simp: AList.update_conv')
  qed
  show ?case
  proof (cases "a = (k, v)")
    case True
    with Cons.prems have "k \<notin> fst ` set kvs" by auto
    with True show ?thesis by (simp add: nochange AList.update_conv')
  next
    case False
    with Cons show ?thesis by (auto)
  qed
qed

subsection \<open>The constructor and the invariant\<close>

lemma bind_names_keys: "map fst (bind_names ms) = map fst ms"
  by (induction ms rule: bind_names.induct) auto

lemma options_of_bind_names:
  "options_of (bind_names ms) = map (\<lambda>(k, opt). (k, opt\<lparr>opt_name := Some k\<rparr>)) (options_of ms)"
  by (induction ms rule: bind_names.induct) auto

lemma update_fresh: "k \<notin> fst ` set al \<Longrightarrow> AList.update k v al = al @ [(k, v)]"
  by (induction al) auto

lemma fold_update_fresh:
  "distinct (map fst xs) \<Longrightarrow> fst ` set xs \<inter> fst ` set acc = {} \<Longrightarrow>
   fold (\<lambda>(k, opt) d. AList.update (Some k) (f opt) d) xs (map (\<lambda>(k, opt). (Some k, f opt)) acc)
     = map (\<lambda>(k, opt). (Some k, f opt)) (acc @ xs)"
proof (induction xs arbitrary: acc)
  case Nil
  then show ?case by simp
next
  case (Cons x xs)
  obtain k opt where x: "x = (k, opt)" by (cases x)
  have fresh: "Some k \<notin> fst ` set (map (\<lambda>(k, opt). (Some k, f opt)) acc)"
    using Cons.prems(2) x by (auto simp: image_iff) 
  have "fold (\<lambda>(k, opt) d. AList.update (Some k) (f opt) d) (x # xs) (map (\<lambda>(k, opt). (Some k, f opt)) acc)
      = fold (\<lambda>(k, opt) d. AList.update (Some k) (f opt) d) xs (map (\<lambda>(k, opt). (Some k, f opt)) (acc @ [x]))"
    using update_fresh[OF fresh] x by simp
  also have "\<dots> = map (\<lambda>(k, opt). (Some k, f opt)) ((acc @ [x]) @ xs)"
    using Cons.prems by (intro Cons.IH) auto
  finally show ?case by simp
qed

lemma Config_init_dict:
  assumes "distinct (map fst (own cls))" "Config_init cls s = (e, cls', s')"
  shows "dict s' = map (\<lambda>(k, opt). (Some k, opt_default opt)) (options cls)"
proof -
  have d: "distinct (map fst (options cls))"
    using assms(1) by (simp add: options_def distinct_options_of)
  from fold_update_fresh[OF d, of "[]" opt_default] assms(2) show ?thesis
    by (auto simp: Config_init_def)
qed

lemma Config_init_wf:
  assumes "distinct (map fst (own cls))" "Config_init cls s = (e, cls', s')"
  shows "e = None" "bound cls'" "populated cls' s'" "store s' = store s"
proof -
  from assms(2) have c: "cls' = cls\<lparr>own := bind_names (own cls)\<rparr>" and e: "e = None"
    and s: "s' = s\<lparr>dict := fold (\<lambda>(k, opt) d. AList.update (Some k) (opt_default opt) d) (options cls) []\<rparr>"
    by (auto simp: Config_init_def)
  show "e = None" by fact
  show "bound cls'" using assms(1) c
    by (auto simp: bound_def bind_names_keys options_def options_of_bind_names list_all_iff)
  have "map fst (dict s') = map (\<lambda>(k, opt). Some k) (options cls)"
    using Config_init_dict[OF assms] by (simp add: comp_def case_prod_beta)
  moreover have "map (\<lambda>(k, opt). Some k) (options cls') = map (\<lambda>(k, opt). Some k) (options cls)"
    using c by (simp add: options_def options_of_bind_names comp_def case_prod_beta)
  ultimately show "populated cls' s'" by (simp add: populated_def)
  show "store s' = store s" using s by simp
qed

lemma populated_keys:
  "populated cls s \<Longrightarrow> fst ` set (dict s) = Some ` fst ` set (options cls)"
proof -
  assume "populated cls s"
  then have "set (map fst (dict s)) = set (map (\<lambda>(k, opt). Some k) (options cls))"
    by (simp add: populated_def)
  also have "\<dots> = Some ` fst ` set (options cls)" by force
  finally show ?thesis by simp
qed

lemma populated_distinct: "bound cls \<Longrightarrow> populated cls s \<Longrightarrow> distinct (map fst (dict s))"
proof -
  assume b: "bound cls" and p: "populated cls s"
  have "distinct (map fst (options cls))"
    using b by (simp add: bound_def options_def distinct_options_of)
  then have "distinct (map Some (map fst (options cls)))"
    by (subst distinct_map) simp
  moreover have "(\<lambda>(k, opt). Some k) = (\<lambda>p :: name \<times> Option_desc. Some (fst p))"
    by (rule ext) (simp add: case_prod_beta)
  ultimately show ?thesis using p by (simp add: populated_def comp_def)
qed

lemma populated_has:
  "populated cls s \<Longrightarrow> map_of (options cls) n = Some opt \<Longrightarrow> Some n \<in> fst ` set (dict s)"
proof -
  assume p: "populated cls s" and o: "map_of (options cls) n = Some opt"
  from o have "(n, opt) \<in> set (options cls)" by (rule map_of_SomeD)
  then have "n \<in> fst ` set (options cls)" by force
  then show ?thesis by (simp add: populated_keys[OF p])
qed

lemma populated_only:
  "populated cls s \<Longrightarrow> map_of (options cls) n = None \<Longrightarrow> map_of (dict s) (Some n) = None"
proof -
  assume p: "populated cls s" and o: "map_of (options cls) n = None"
  from o have "n \<notin> fst ` set (options cls)" by (simp add: map_of_eq_None_iff)
  then have "Some n \<notin> fst ` set (dict s)" by (auto simp: populated_keys[OF p])
  then show ?thesis by (simp add: map_of_eq_None_iff)
qed

lemma update_keys_present: "k \<in> fst ` set al \<Longrightarrow> map fst (AList.update k v al) = map fst al"
  by (induction al) auto

lemma Option_set_populated:
  assumes "populated cls s" "Some n \<in> fst ` set (dict s)" "opt_name opt = Some n"
  shows "populated cls (snd (Option_set opt v s))"
proof -
  obtain r s' where e: "Option_set opt v s = (r, s')" by (cases "Option_set opt v s")
  have k: "map fst (AList.update (opt_name opt) v (dict s)) = map fst (dict s)"
    using assms(2,3) by (simp add: update_keys_present)
  from Option_set_cases[OF e] show ?thesis
  proof
    assume "rejects opt v \<and> r = Some (ValueError (NotAllowed v (opt_name opt))) \<and> s' = s"
    with assms(1) e show ?thesis by simp
  next
    assume "\<not> rejects opt v \<and> dict s' = AList.update (opt_name opt) v (dict s) \<and> store s' = store s \<and>
      fired s' = fired s @ (if opt_on_change opt = None then [] else [opt_name opt]) \<and>
      (opt_on_change opt = None \<longrightarrow> r = None)"
    then have "map fst (dict s') = map fst (dict s)" using k by simp
    with assms(1) e show ?thesis by (simp add: populated_def)
  qed
qed

lemma py_setattr_populated:
  assumes "bound cls" "populated cls s"
  shows "populated cls (snd (py_setattr cls k v s))"
proof (cases k)
  case None
  with assms show ?thesis by (simp add: py_setattr_def)
next
  case (Some n)
  show ?thesis
  proof (cases "map_of (options cls) n")
    case None
    then have "n \<notin> set (map fst (options cls))" by (simp add: map_of_eq_None_iff)
    with Some assms show ?thesis by (simp add: py_setattr_def setattr_undeclared)
  next
    case (Some opt)
    from Option_set_populated[OF assms(2) populated_has[OF assms(2) Some] bound_lookup(2)[OF assms(1) Some]]
    show ?thesis using \<open>k = Some n\<close> Some assms(1) by (simp add: py_setattr_def setattr_declared)
  qed
qed

lemma load_populated:
  assumes "bound cls"
  shows "populated cls s \<Longrightarrow> populated cls (snd (load_config_dict cls kvs s))"
proof (induction kvs arbitrary: s)
  case Nil
  then show ?case by simp
next
  case (Cons kv kvs)
  obtain k v where kv: "kv = (k, v)" by (cases kv)
  obtain r s1 where a: "py_setattr cls k v s = (r, s1)" by (cases "py_setattr cls k v s")
  have p1: "populated cls s1" using py_setattr_populated[OF assms Cons.prems, of k v] a by simp
  show ?case
  proof (cases r)
    case None
    with a kv Cons.IH[OF p1] show ?thesis by simp
  next
    case (Some e)
    with a kv p1 show ?thesis by simp
  qed
qed

lemma load_snapshot_restores:
  assumes "bound cls" "populated cls s0" "load_config_dict cls (snapshot s0) s2 = (None, s3)"
    "map_of (options cls) n = Some opt"
  shows "Config_getattr cls n s3 = Config_getattr cls n s0"
proof -
  have d: "distinct (map fst (dict s0))" using populated_distinct[OF assms(1,2)] .
  from populated_has[OF assms(2,4)] obtain v where v: "(Some n, v) \<in> set (dict s0)" by auto
  have "map_of (dict s0) (Some n) = Some v" using d v by simp
  moreover have "map_of (dict s3) (Some n) = Some v"
    using load_ok[OF assms(1) assms(3)] map_of_fold_update[OF _ v, of "dict s2"] d
    by (simp add: snapshot_def)
  ultimately show ?thesis using assms(1,4) by (simp add: getattr_declared)
qed

subsection \<open>Equations for evaluation\<close>

text \<open>
  The loop and the \<open>with\<close> statement, written with projections: these forms evaluate a
  call on concrete arguments without first unfolding the rest of the computation.
\<close>

lemma load_config_dict_unfold [code]:
  "load_config_dict cls [] s = (None, s)"
  "load_config_dict cls ((k, v) # kvs) s =
     (let r = py_setattr cls k v s
      in if fst r = None then load_config_dict cls kvs (snd r) else r)"
  by (auto simp: Let_def split: prod.splits option.splits)

lemma with_stmt_unfold [code]:
  "with_stmt enter exit body s =
     (let r1 = enter s in
      if fst r1 = None then
        (let r2 = body (snd r1); r3 = exit (snd r2) in
         if isl (fst r3) then (Inl (projl (fst r3)), snd r3)
         else (case fst r2 of
                 Inl e \<Rightarrow> if projr (fst r3) then (Inr None, snd r3) else (Inl e, snd r3)
               | Inr r \<Rightarrow> (Inr (Some r), snd r3)))
      else (Inl (the (fst r1)), snd r1))"
  by (auto simp: with_stmt_def Let_def split: prod.splits option.splits sum.splits)

section \<open>The write path\<close>

lemma PyphiConfig_distinct: "distinct (map fst (own (PyphiConfig dc)))"
  by code_simp

lemma config_wf: "bound (config_class dc) \<and> populated (config_class dc) (config dc)"
  using Config_init_wf[OF PyphiConfig_distinct, of dc module_state]
  by (auto simp: config_class_def config_def prod_eq_iff)

lemma example_wf: "bound example_class \<and> populated example_class example_config"
proof -
  have "distinct (map fst (own example_declaration))" by code_simp
  from Config_init_wf[OF this, of module_state] show ?thesis
    by (auto simp: example_class_def example_config_def prod_eq_iff)
qed

text \<open>
  C3. When the descriptor of a declared setting has a change hook and the value passes the
  check, \<open>setattr\<close> first stores the value in the instance dictionary and then calls the
  hook with the registry in that state: the outcome of the write is the outcome of the hook
  on the state \<open>s1\<close> in which the value is stored, and reading the setting in \<open>s1\<close>
  already gives the new value.
\<close>

theorem hook_runs_after_commit:
  assumes "bound cls" and "map_of (options cls) n = Some opt"
    and "opt_on_change opt = Some h" and "\<not> rejects opt v"
    and "s1 = (commit opt v s)\<lparr>fired := fired s @ [Some n]\<rparr>"
  shows "Config_setattr cls n v s = (fst (h s1), s1\<lparr>logging := snd (h s1)\<rparr>) \<and>
         dict s1 = AList.update (Some n) v (dict s) \<and>
         Config_getattr cls n s1 = Inr (Value v)"
proof -
  have nm: "opt_name opt = Some n" using bound_lookup(2)[OF assms(1,2)] .
  have "Config_setattr cls n v s = call_hook opt h (commit opt v s)"
    using assms(1-4) by (simp add: setattr_declared Option_set_def)
  also have "\<dots> = (fst (h s1), s1\<lparr>logging := snd (h s1)\<rparr>)"
    using nm assms(5) by (simp add: call_hook_def commit_def Let_def case_prod_beta)
  finally have a: "Config_setattr cls n v s = (fst (h s1), s1\<lparr>logging := snd (h s1)\<rparr>)" .
  have b: "dict s1 = AList.update (Some n) v (dict s)"
    using nm assms(5) by (simp add: commit_def)
  have "map_of (dict s1) (Some n) = Some v" using b by (simp add: AList.update_conv')
  then have c: "Config_getattr cls n s1 = Inr (Value v)"
    using assms(1,2) by (simp add: getattr_declared)
  from a b c show ?thesis by simp
qed

theorem hook_runs_after_commit_witness:
  "bound example_class \<and>
   map_of (options example_class) ''SINK'' =
     Some \<lparr>opt_default = Atom (AStr ''stderr''), opt_values = None,
           opt_on_change = Some quiet_hook, opt_name = Some ''SINK''\<rparr> \<and>
   \<not> rejects \<lparr>opt_default = Atom (AStr ''stderr''), opt_values = None,
           opt_on_change = Some quiet_hook, opt_name = Some ''SINK''\<rparr> (Atom (AStr ''file'')) \<and>
   Config_setattr example_class ''SINK'' (Atom (AStr ''file'')) example_config =
     (None, example_config\<lparr>dict := AList.update (Some ''SINK'') (Atom (AStr ''file'')) (dict example_config),
                           fired := [Some ''SINK'']\<rparr>) \<and>
   Config_getattr example_class ''SINK''
     (example_config\<lparr>dict := AList.update (Some ''SINK'') (Atom (AStr ''file'')) (dict example_config),
                     fired := [Some ''SINK'']\<rparr>) = Inr (Value (Atom (AStr ''file'')))"
proof -
  let ?opt = "\<lparr>opt_default = Atom (AStr ''stderr''), opt_values = None,
           opt_on_change = Some quiet_hook, opt_name = Some ''SINK''\<rparr>"
  have b: "bound example_class" using example_wf by simp
  have o: "map_of (options example_class) ''SINK'' = Some ?opt"
    by (simp add: example_class_def example_declaration_def example_namespace_def
        Config_init_def options_def Option_init_def)
  have r: "\<not> rejects ?opt (Atom (AStr ''file''))" by (simp add: rejects_def)
  have f: "fired example_config = []" "logging example_config = []"
    by (simp_all add: example_config_def Config_init_def module_state_def)
  from hook_runs_after_commit[OF b o _ r refl, of quiet_hook example_config] b o r f
  show ?thesis by (simp add: quiet_hook_def commit_def)
qed



lemma load_append:
  "load_config_dict cls pre s = (None, s1) \<Longrightarrow>
   load_config_dict cls (pre @ kvs) s = load_config_dict cls kvs s1"
proof (induction pre arbitrary: s)
  case Nil
  then show ?case by simp
next
  case (Cons kv pre)
  obtain k v where kv: "kv = (k, v)" by (cases kv)
  from Cons.prems kv obtain s' where a: "py_setattr cls k v s = (None, s')"
    and b: "load_config_dict cls pre s' = (None, s1)"
    by (auto split: prod.splits option.splits)
  from Cons.IH[OF b] a kv show ?case by simp
qed

section \<open>Bulk load\<close>

text \<open>
  C8. \<open>load_config_dict\<close> writes the keys in the order given. When the keys before
  \<open>k\<close> were written without failure and the write of \<open>k\<close> raises \<open>e\<close>, the load raises
  \<open>e\<close> in the state that this write left, whatever keys follow: they are not written.
  The earlier keys are in the dictionary as the load of them alone leaves it (nothing is
  rolled back), and when the write of \<open>k\<close> is refused (the key is no option, or its value
  is not allowed) the final state is exactly the state after the earlier keys.
\<close>

theorem load_config_dict_first_failure:
  assumes "bound cls"
    and "load_config_dict cls pre s = (None, s1)"
    and "py_setattr cls k v s1 = (Some e, s2)"
  shows "load_config_dict cls (pre @ (k, v) # post) s = (Some e, s2) \<and>
         dict s1 = fold (\<lambda>(k, v). AList.update k v) pre (dict s) \<and>
         (refused cls k v \<longrightarrow> s2 = s1)"
proof -
  have a: "load_config_dict cls (pre @ (k, v) # post) s = (Some e, s2)"
    using load_append[OF assms(2), of "(k, v) # post"] assms(3) by simp
  have b: "dict s1 = fold (\<lambda>(k, v). AList.update k v) pre (dict s)"
    using load_ok[OF assms(1,2)] by simp
  have c: "refused cls k v \<longrightarrow> s2 = s1"
  proof
    assume r: "refused cls k v"
    show "s2 = s1"
    proof (cases k)
      case None
      with assms(3) show ?thesis by (simp add: py_setattr_def)
    next
      case (Some n)
      show ?thesis
      proof (cases "map_of (options cls) n")
        case None
        then have "n \<notin> set (map fst (options cls))" by (simp add: map_of_eq_None_iff)
        with Some assms(3) show ?thesis by (simp add: py_setattr_def setattr_undeclared)
      next
        case (Some opt)
        with r \<open>k = Some n\<close> have "rejects opt v" by (simp add: refused_def)
        with Some \<open>k = Some n\<close> assms(1,3) show ?thesis
          by (simp add: py_setattr_def setattr_declared Option_set_def)
      qed
    qed
  qed
  from a b c show ?thesis by simp
qed

theorem load_config_dict_first_failure_witness:
  "bound (config_class dictConfig_applies) \<and>
   fst (load_config_dict (config_class dictConfig_applies) [(Some ''PRECISION'', Atom (AInt 3))]
          (config dictConfig_applies)) = None \<and>
   refused (config_class dictConfig_applies) (Some ''REPR_VERBOSITY'') (Atom (AInt 7)) \<and>
   load_config_dict (config_class dictConfig_applies)
     ([(Some ''PRECISION'', Atom (AInt 3))] @ (Some ''REPR_VERBOSITY'', Atom (AInt 7)) #
      [(Some ''MEASURE'', Atom (AStr ''KLD''))])
     (config dictConfig_applies) =
   (Some (ValueError (NotAllowed (Atom (AInt 7)) (Some ''REPR_VERBOSITY''))),
    snd (load_config_dict (config_class dictConfig_applies) [(Some ''PRECISION'', Atom (AInt 3))]
          (config dictConfig_applies))) \<and>
   Config_getattr (config_class dictConfig_applies) ''PRECISION''
     (snd (load_config_dict (config_class dictConfig_applies) [(Some ''PRECISION'', Atom (AInt 3))]
          (config dictConfig_applies))) = Inr (Value (Atom (AInt 3))) \<and>
   Config_getattr (config_class dictConfig_applies) ''MEASURE''
     (snd (load_config_dict (config_class dictConfig_applies) [(Some ''PRECISION'', Atom (AInt 3))]
          (config dictConfig_applies))) = Inr (Value (Atom (AStr ''EMD'')))"
proof -
  let ?C = "config_class dictConfig_applies"
  let ?s = "config dictConfig_applies"
  let ?pre = "[(Some ''PRECISION'', Atom (AInt 3))]"
  let ?s1 = "snd (load_config_dict ?C ?pre ?s)"
  let ?e = "ValueError (NotAllowed (Atom (AInt 7)) (Some ''REPR_VERBOSITY''))"
  let ?s2 = "snd (py_setattr ?C (Some ''REPR_VERBOSITY'') (Atom (AInt 7)) ?s1)"
  have b: "bound ?C" using config_wf by simp
  have l: "fst (load_config_dict ?C ?pre ?s) = None" by code_simp
  then have l': "load_config_dict ?C ?pre ?s = (None, ?s1)" by (simp add: prod_eq_iff)
  have "fst (py_setattr ?C (Some ''REPR_VERBOSITY'') (Atom (AInt 7)) ?s1) = Some ?e" by code_simp
  then have f: "py_setattr ?C (Some ''REPR_VERBOSITY'') (Atom (AInt 7)) ?s1 = (Some ?e, ?s2)"
    by (simp add: prod_eq_iff)
  have r: "refused ?C (Some ''REPR_VERBOSITY'') (Atom (AInt 7))" by code_simp
  have g1: "Config_getattr ?C ''PRECISION'' ?s1 = Inr (Value (Atom (AInt 3)))" by code_simp
  have g2: "Config_getattr ?C ''MEASURE'' ?s1 = Inr (Value (Atom (AStr ''EMD'')))" by code_simp
  from load_config_dict_first_failure[OF b l' f, of "[(Some ''MEASURE'', Atom (AStr ''KLD''))]"] r
  have "load_config_dict ?C (?pre @ (Some ''REPR_VERBOSITY'', Atom (AInt 7)) #
      [(Some ''MEASURE'', Atom (AStr ''KLD''))]) ?s = (Some ?e, ?s1)" by simp
  with b l r g1 g2 show ?thesis by simp
qed

lemma open_wf: "bound open_class \<and> populated open_class open_config"
proof -
  have "distinct (map fst (own open_declaration))" by code_simp
  from Config_init_wf[OF this, of module_state] show ?thesis
    by (auto simp: open_class_def open_config_def prod_eq_iff)
qed

section \<open>Allowed values\<close>

text \<open>
  C4, as stated, fails for a descriptor declared with an empty list of allowed values:
  the list is present, no value is a member of it, and yet every write succeeds, because
  \<open>Option.__set__\<close> tests the truth value of the list.
\<close>

theorem empty_values_counterexample:
  "map (opt_values \<circ> snd) (options open_class) = [Some []] \<and>
   \<not> py_in (Atom (AStr ''anything'')) [] \<and>
   fst (Config_setattr open_class ''MODE'' (Atom (AStr ''anything'')) open_config) = None \<and>
   Config_getattr open_class ''MODE''
     (snd (Config_setattr open_class ''MODE'' (Atom (AStr ''anything'')) open_config)) =
     Inr (Value (Atom (AStr ''anything'')))"
  by code_simp

text \<open>
  C4, amended. For a declared setting whose descriptor has a non-empty list of allowed
  values: a write of a value that is not in the list raises \<open>ValueError\<close> and leaves the
  whole state as it was (nothing is stored, no hook runs); a write of a value in the list
  stores it, so that reading the setting afterwards gives that value, and the write
  succeeds when the descriptor has no hook and otherwise ends as the hook ends.
\<close>

theorem allowed_values_enforced:
  assumes "bound cls" and "map_of (options cls) n = Some opt"
    and "opt_values opt = Some xs" and "xs \<noteq> []"
  shows "(\<not> py_in v xs \<longrightarrow>
            Config_setattr cls n v s = (Some (ValueError (NotAllowed v (Some n))), s)) \<and>
         (py_in v xs \<longrightarrow>
            Config_getattr cls n (snd (Config_setattr cls n v s)) = Inr (Value v) \<and>
            (opt_on_change opt = None \<longrightarrow> fst (Config_setattr cls n v s) = None) \<and>
            (\<forall>h. opt_on_change opt = Some h \<longrightarrow>
               fst (Config_setattr cls n v s) =
               fst (h ((commit opt v s)\<lparr>fired := fired s @ [Some n]\<rparr>))))"
proof -
  have nm: "opt_name opt = Some n" using bound_lookup(2)[OF assms(1,2)] .
  have eq: "Config_setattr cls n v s = Option_set opt v s"
    using assms(1,2) by (rule setattr_declared)
  have rej: "rejects opt v \<longleftrightarrow> \<not> py_in v xs" using assms(3,4) by (simp add: rejects_def)
  have a: "\<not> py_in v xs \<longrightarrow>
            Config_setattr cls n v s = (Some (ValueError (NotAllowed v (Some n))), s)"
    using eq rej nm by (simp add: Option_set_def)
  have b: "py_in v xs \<longrightarrow>
            Config_getattr cls n (snd (Config_setattr cls n v s)) = Inr (Value v) \<and>
            (opt_on_change opt = None \<longrightarrow> fst (Config_setattr cls n v s) = None) \<and>
            (\<forall>h. opt_on_change opt = Some h \<longrightarrow>
               fst (Config_setattr cls n v s) =
               fst (h ((commit opt v s)\<lparr>fired := fired s @ [Some n]\<rparr>)))"
  proof
    assume m: "py_in v xs"
    obtain r s' where e: "Option_set opt v s = (r, s')" by (cases "Option_set opt v s")
    from Option_set_cases[OF e] rej m nm
    have d: "dict s' = AList.update (Some n) v (dict s)" by auto
    have "map_of (dict s') (Some n) = Some v" using d by (simp add: AList.update_conv')
    then have g: "Config_getattr cls n (snd (Config_setattr cls n v s)) = Inr (Value v)"
      using assms(1,2) eq e by (simp add: getattr_declared)
    have h0: "opt_on_change opt = None \<longrightarrow> fst (Config_setattr cls n v s) = None"
      using eq rej m by (simp add: Option_set_def)
    have h1: "\<forall>h. opt_on_change opt = Some h \<longrightarrow>
               fst (Config_setattr cls n v s) =
               fst (h ((commit opt v s)\<lparr>fired := fired s @ [Some n]\<rparr>))"
      using eq rej m nm
      by (simp add: Option_set_def call_hook_def commit_def Let_def case_prod_beta)
    from g h0 h1 show "Config_getattr cls n (snd (Config_setattr cls n v s)) = Inr (Value v) \<and>
            (opt_on_change opt = None \<longrightarrow> fst (Config_setattr cls n v s) = None) \<and>
            (\<forall>h. opt_on_change opt = Some h \<longrightarrow>
               fst (Config_setattr cls n v s) =
               fst (h ((commit opt v s)\<lparr>fired := fired s @ [Some n]\<rparr>)))" by simp
  qed
  from a b show ?thesis by simp
qed

theorem allowed_values_enforced_witness:
  "bound example_class \<and>
   map_of (options example_class) ''LEVEL'' =
     Some \<lparr>opt_default = Atom (AStr ''TRACE''),
           opt_values = Some [AStr ''DEBUG'', AStr ''WARN'', AStr ''ERROR''],
           opt_on_change = None, opt_name = Some ''LEVEL''\<rparr> \<and>
   \<not> py_in (Atom (AStr ''INFO'')) [AStr ''DEBUG'', AStr ''WARN'', AStr ''ERROR''] \<and>
   Config_setattr example_class ''LEVEL'' (Atom (AStr ''INFO'')) example_config =
     (Some (ValueError (NotAllowed (Atom (AStr ''INFO'')) (Some ''LEVEL''))), example_config) \<and>
   py_in (Atom (AStr ''DEBUG'')) [AStr ''DEBUG'', AStr ''WARN'', AStr ''ERROR''] \<and>
   fst (Config_setattr example_class ''LEVEL'' (Atom (AStr ''DEBUG'')) example_config) = None \<and>
   Config_getattr example_class ''LEVEL''
     (snd (Config_setattr example_class ''LEVEL'' (Atom (AStr ''DEBUG'')) example_config)) =
     Inr (Value (Atom (AStr ''DEBUG'')))"
proof -
  let ?xs = "[AStr ''DEBUG'', AStr ''WARN'', AStr ''ERROR'']"
  let ?opt = "\<lparr>opt_default = Atom (AStr ''TRACE''), opt_values = Some ?xs,
           opt_on_change = None, opt_name = Some ''LEVEL''\<rparr>"
  have b: "bound example_class" using example_wf by simp
  have o: "map_of (options example_class) ''LEVEL'' = Some ?opt"
    by (simp add: example_class_def example_declaration_def example_namespace_def
        Config_init_def options_def Option_init_def)
  have v: "opt_values ?opt = Some ?xs" by simp
  have ne: "?xs \<noteq> []" by simp
  have m1: "\<not> py_in (Atom (AStr ''INFO'')) ?xs" by code_simp
  have m2: "py_in (Atom (AStr ''DEBUG'')) ?xs" by code_simp
  from allowed_values_enforced[OF b o v ne, of "Atom (AStr ''INFO'')" example_config]
    allowed_values_enforced[OF b o v ne, of "Atom (AStr ''DEBUG'')" example_config]
    b o m1 m2
  show ?thesis by simp
qed

lemma Option_set_not_unknown:
  "Option_set opt v s \<noteq> (Some (ValueError (NotAnOption n)), s)"
proof
  assume e: "Option_set opt v s = (Some (ValueError (NotAnOption n)), s)"
  from Option_set_cases[OF e] show False
  proof
    assume "rejects opt v \<and>
      Some (ValueError (NotAnOption n)) = Some (ValueError (NotAllowed v (opt_name opt))) \<and> s = s"
    then show False by simp
  next
    assume a: "\<not> rejects opt v \<and> dict s = AList.update (opt_name opt) v (dict s) \<and>
      store s = store s \<and>
      fired s = fired s @ (if opt_on_change opt = None then [] else [opt_name opt]) \<and>
      (opt_on_change opt = None \<longrightarrow> Some (ValueError (NotAnOption n)) = None)"
    then show False by (cases "opt_on_change opt") auto
  qed
qed

section \<open>Names that are not options\<close>

text \<open>
  C5, as stated, fails for reading: \<open>snapshot\<close> is not the name of an option of the
  module's registry, yet \<open>config.snapshot\<close> does not raise, it is the method that
  \<open>class Config\<close> defines.
\<close>

theorem method_name_counterexample:
  "''snapshot'' \<notin> set (map fst (options (config_class dictConfig_applies))) \<and>
   Config_getattr (config_class dictConfig_applies) ''snapshot'' (config dictConfig_applies) =
     Inr (ClassAttr ''snapshot'')"
  by code_simp

text \<open>
  C5, amended. In a registry as its constructor leaves it and as writes keep it:
  a write to a name raises the \<open>ValueError\<close> for an unknown option, leaving the state
  unchanged, exactly when the name is not the name of a declared option; reading a name
  that is neither an option nor any other attribute of the class raises
  \<open>AttributeError\<close>; and after any single write and any bulk load, failed or not, the
  keys of the instance dictionary are still exactly the names of the declared options.
\<close>

theorem undeclared_names_refused:
  assumes "bound cls" and "populated cls s"
  shows "(Config_setattr cls n v s = (Some (ValueError (NotAnOption n)), s)
            \<longleftrightarrow> n \<notin> set (map fst (options cls))) \<and>
         (n \<notin> set (map fst (options cls)) \<and> type_lookup cls n = None \<longrightarrow>
            Config_getattr cls n s = Inl (AttributeError n)) \<and>
         populated cls (snd (py_setattr cls k w s)) \<and>
         populated cls (snd (load_config_dict cls kvs s))"
proof -
  have a: "Config_setattr cls n v s = (Some (ValueError (NotAnOption n)), s)
            \<longleftrightarrow> n \<notin> set (map fst (options cls))"
  proof (cases "n \<in> set (map fst (options cls))")
    case True
    then obtain opt where "map_of (options cls) n = Some opt" using declared_lookup by blast
    then have "Config_setattr cls n v s = Option_set opt v s"
      using assms(1) by (simp add: setattr_declared)
    with True show ?thesis by (simp add: Option_set_not_unknown)
  next
    case False
    then show ?thesis by (simp add: setattr_undeclared)
  qed
  have b: "n \<notin> set (map fst (options cls)) \<and> type_lookup cls n = None \<longrightarrow>
            Config_getattr cls n s = Inl (AttributeError n)"
  proof
    assume h: "n \<notin> set (map fst (options cls)) \<and> type_lookup cls n = None"
    then have "map_of (options cls) n = None" by (simp add: map_of_eq_None_iff)
    then have "map_of (dict s) (Some n) = None" using assms(2) by (rule populated_only[rotated])
    with h show "Config_getattr cls n s = Inl (AttributeError n)"
      by (simp add: Config_getattr_def)
  qed
  from a b py_setattr_populated[OF assms] load_populated[OF assms] show ?thesis by simp
qed

theorem undeclared_names_refused_witness:
  "bound (config_class dictConfig_applies) \<and>
   populated (config_class dictConfig_applies) (config dictConfig_applies) \<and>
   ''VERBOSE'' \<notin> set (map fst (options (config_class dictConfig_applies))) \<and>
   type_lookup (config_class dictConfig_applies) ''VERBOSE'' = None \<and>
   Config_setattr (config_class dictConfig_applies) ''VERBOSE'' (Atom (ABool True))
     (config dictConfig_applies) =
     (Some (ValueError (NotAnOption ''VERBOSE'')), config dictConfig_applies) \<and>
   Config_getattr (config_class dictConfig_applies) ''VERBOSE'' (config dictConfig_applies) =
     Inl (AttributeError ''VERBOSE'') \<and>
   populated (config_class dictConfig_applies)
     (snd (py_setattr (config_class dictConfig_applies) (Some ''PRECISION'') (Atom (AInt 3))
            (config dictConfig_applies)))"
proof -
  let ?C = "config_class dictConfig_applies"
  let ?s = "config dictConfig_applies"
  have b: "bound ?C" and p: "populated ?C ?s" using config_wf by simp_all
  have u: "''VERBOSE'' \<notin> set (map fst (options ?C))" by code_simp
  have t: "type_lookup ?C ''VERBOSE'' = None" by code_simp
  from undeclared_names_refused[OF b p, of "''VERBOSE''" "Atom (ABool True)"
      "Some ''PRECISION''" "Atom (AInt 3)" "[]"] b p u t
  show ?thesis by simp
qed

section \<open>The override guard\<close>




lemma override_with_final:
  assumes "override_enter cls g s0 = (None, s1)" and "body s1 = (r, s2)"
  shows "snd (override_with cls g body s0) = snd (override_exit cls g s2)"
  using assms
  by (cases r) (auto simp: override_with_def with_stmt_def split: prod.splits sum.splits)

lemma guard_restores_construction_state:
  assumes "bound cls" and "populated cls sc"
    and "g = Config_override kw sc"
    and "override_enter cls g s0 = (None, s1)" and "body s1 = (r, s2)"
    and "override_exit cls g s2 = (Inr b, s3)"
    and "n \<in> set (map fst (options cls))"
  shows "Config_getattr cls n (snd (override_with cls g body s0)) = Config_getattr cls n sc"
proof -
  have snap: "initial_conf g = snapshot sc"
    using assms(3) by (simp add: Config_override_def override_init_def)
  from assms(6) have l: "load_config_dict cls (snapshot sc) s2 = (None, s3)"
    by (auto simp: override_exit_def snap split: prod.splits option.splits)
  from assms(7) obtain opt where o: "map_of (options cls) n = Some opt"
    using declared_lookup by blast
  have "snd (override_with cls g body s0) = s3"
    using override_with_final[where body = body, OF assms(4,5)] assms(6) by simp
  with load_snapshot_restores[OF assms(1,2) l o] show ?thesis by simp
qed

text \<open>
  C1 is right about what the guard should do and the code does something else:
  \<open>__enter__\<close>, documented as ``Save original config values; override with new ones'',
  saves nothing; the snapshot is taken once, in \<open>__init__\<close>. Here the module's registry
  has \<open>PRECISION = 6\<close> when \<open>@config.override(PRECISION=100)\<close> decorates a function;
  \<open>PRECISION\<close> is then set to 5; the decorated function is called and returns. After the
  call \<open>PRECISION\<close> is 6, the value at decoration time, not 5, the value just before the
  call.
\<close>

theorem decorator_restores_decoration_state:
  "Config_getattr (config_class dictConfig_applies) ''PRECISION''
     (snd (Config_setattr (config_class dictConfig_applies) ''PRECISION'' (Atom (AInt 5))
            (config dictConfig_applies))) = Inr (Value (Atom (AInt 5))) \<and>
   fst (ContextDecorator_call (config_class dictConfig_applies)
          (Config_override [(''PRECISION'', Atom (AInt 100))] (config dictConfig_applies))
          returning_function ()
          (snd (Config_setattr (config_class dictConfig_applies) ''PRECISION'' (Atom (AInt 5))
                 (config dictConfig_applies)))) = Inr (Some ()) \<and>
   Config_getattr (config_class dictConfig_applies) ''PRECISION''
     (snd (ContextDecorator_call (config_class dictConfig_applies)
             (Config_override [(''PRECISION'', Atom (AInt 100))] (config dictConfig_applies))
             returning_function ()
             (snd (Config_setattr (config_class dictConfig_applies) ''PRECISION'' (Atom (AInt 5))
                    (config dictConfig_applies))))) = Inr (Value (Atom (AInt 6)))"
  by code_simp







section \<open>Snapshots\<close>





section \<open>Binding the names\<close>



end
